theory Spec2Isabelle
  imports Main "HOL-Library.Word" "HOL-Library.Multiset"
begin

section \<open>Outcomes of a call\<close>

text \<open>
  A Go call either returns, panics (a run-time fault such as a slice bound out of range)
  or ends the process with \<^verbatim>\<open>os.Exit\<close>.
\<close>

datatype 'a outcome = Returned 'a | Panic | Exit int

section \<open>Strings\<close>

text \<open>
  A Go string is a sequence of bytes; \<^typ>\<open>string\<close> is a list of such bytes.
  \<^verbatim>\<open>strings.HasPrefix\<close>, \<^verbatim>\<open>strings.Contains\<close> and
  \<^verbatim>\<open>strings.Replace(s, old, new, -1)\<close> work on the bytes. \<open>Replace\<close> replaces the
  non-overlapping occurrences of \<open>old\<close> from the left; both calls of the program pass a
  non-empty \<open>old\<close>, and the empty \<open>old\<close> (where Go inserts \<open>new\<close> around every rune) is
  not modelled: the function leaves the string as it is there.
\<close>

fun HasPrefix :: "string \<Rightarrow> string \<Rightarrow> bool" where
  "HasPrefix s [] = True"
| "HasPrefix [] (p # ps) = False"
| "HasPrefix (c # cs) (p # ps) = (c = p \<and> HasPrefix cs ps)"

fun Contains :: "string \<Rightarrow> string \<Rightarrow> bool" where
  "Contains [] substr = (substr = [])"
| "Contains (c # cs) substr = (HasPrefix (c # cs) substr \<or> Contains cs substr)"

function Replace :: "string \<Rightarrow> string \<Rightarrow> string \<Rightarrow> string" where
  "Replace [] old new = []"
| "Replace (c # cs) old new =
     (if old \<noteq> [] \<and> HasPrefix (c # cs) old
      then new @ Replace (drop (length old) (c # cs)) old new
      else c # Replace cs old new)"
  by pat_completeness auto
termination
  by (relation "measure (\<lambda>(s, old, new). length s)") auto

section \<open>The resolver (src/resolver/resolver.go)\<close>

subsection \<open>DNS messages\<close>

text \<open>
  The message types belong to the DNS library the program imports; only the fields the
  handler reads or writes are kept. \<open>net.IP\<close> is a byte slice, \<open>nil\<close> being the empty one.
\<close>

type_synonym IP = "8 word list"

record RR_Header =
  Name :: string
  Rrtype :: "16 word"
  Class :: "16 word"
  Ttl :: "32 word"

datatype RR =
    RR_A RR_Header IP
  | RR_AAAA RR_Header IP
  | RR_SRV RR_Header (Priority: "16 word") (Weight: "16 word") (Port_f: "16 word") (Target: string)

record Question =
  QName :: string
  Qtype :: "16 word"
  Qclass :: "16 word"

record Msg =
  Id_f :: "16 word"
  Response :: bool
  Authoritative :: bool
  RecursionDesired :: bool
  Rcode :: int
  Question :: "Question list"
  Answer :: "RR list"
  Ns :: "RR list"
  Extra :: "RR list"

definition TypeA :: "16 word" where "TypeA = 1"
definition TypeSOA :: "16 word" where "TypeSOA = 6"
definition TypeAAAA :: "16 word" where "TypeAAAA = 28"
definition TypeSRV :: "16 word" where "TypeSRV = 33"
definition TypeANY :: "16 word" where "TypeANY = 255"
definition ClassINET :: "16 word" where "ClassINET = 1"
definition RcodeSuccess :: int where "RcodeSuccess = 0"
definition RcodeServerFailure :: int where "RcodeServerFailure = 2"
definition RcodeNameError :: int where "RcodeNameError = 3"

text \<open>\<^verbatim>\<open>new(dns.Msg)\<close>: every field at its zero value.\<close>

definition newMsg :: Msg where
  "newMsg = \<lparr>Id_f = 0, Response = False, Authoritative = False, RecursionDesired = False,
     Rcode = 0, Question = [], Answer = [], Ns = [], Extra = []\<rparr>"

text \<open>
  The library's \<^verbatim>\<open>SetReply\<close>: the reply takes the request's id and recursion-desired bit,
  is marked a response with return code success, and repeats the first question.
\<close>

definition SetReply :: "Msg \<Rightarrow> Msg \<Rightarrow> Msg" where
  "SetReply m request =
     m\<lparr>Id_f := Id_f request, RecursionDesired := RecursionDesired request,
       Response := True, Rcode := RcodeSuccess,
       Question := (if length (Question request) > 0 then [hd (Question request)]
                    else Question m)\<rparr>"

text \<open>The library's \<^verbatim>\<open>IP.To4\<close>: the 4-byte form of an IPv4 address, \<open>nil\<close> otherwise.\<close>

definition To4 :: "IP \<Rightarrow> IP" where
  "To4 ip =
     (if length ip = 4 then ip
      else if length ip = 16 \<and> take 10 ip = replicate 10 0 \<and> ip ! 10 = 255 \<and> ip ! 11 = 255
      then drop 12 ip
      else [])"

subsection \<open>Configuration and records\<close>

text \<open>\<^verbatim>\<open>records.Config\<close> (declared in the configuration file of the repository).\<close>

record Config =
  Masters :: "string list"
  RefreshSeconds :: int
  TTL :: int
  Port :: int
  Domain_f :: string
  Resolvers :: "string list"
  Timeout :: int
  File :: string
  Email :: string
  Mname :: string
  Listener :: string
  Verbose :: bool
  VeryVerbose :: bool

text \<open>
  Modelled from the spec: the declaration of \<^verbatim>\<open>records.RecordGenerator\<close> is not among the
  sources. The spec gives the record set two maps from names to lists of strings, \<open>As\<close>
  (addresses) and \<open>SRVs\<close> (\<open>host:port\<close> values); the handler reads \<open>SRVs\<close> by
  indexing a Go map, which yields the empty slice for a missing key.
\<close>

record RecordGenerator =
  As :: "string \<rightharpoonup> string list"
  SRVs :: "string \<rightharpoonup> string list"

definition at :: "(string \<rightharpoonup> string list) \<Rightarrow> string \<Rightarrow> string list" where
  "at m k = (case m k of None \<Rightarrow> [] | Some v \<Rightarrow> v)"

record Resolver =
  rs :: RecordGenerator
  Config :: Config

text \<open>
  What the handler takes from outside the program: \<^verbatim>\<open>net.ResolveIPAddr(network, address)\<close>
  (\<open>None\<close> when it returns an error) and the numbers drawn by \<^verbatim>\<open>math/rand\<close>: \<open>rnd i\<close> is
  the raw number behind the \<open>i\<close>-th call of \<^verbatim>\<open>rand.Intn\<close>, and \<^verbatim>\<open>rand.Intn(k)\<close> is that number
  modulo \<open>k\<close>.
\<close>

record Net =
  ResolveIPAddr :: "string \<Rightarrow> string \<Rightarrow> IP option"
  rnd :: "nat \<Rightarrow> nat"

subsection \<open>cleanWild, formatSRV, formatAAAA, formatA\<close>

definition cleanWild :: "string \<Rightarrow> string" where
  "cleanWild dom_n = (if Contains dom_n ''.*'' then Replace dom_n ''.*'' [] else dom_n)"

text \<open>\<^verbatim>\<open>uint32(res.Config.TTL)\<close> keeps the low 32 bits.\<close>

definition formatSRV :: "Resolver \<Rightarrow> string \<Rightarrow> string \<Rightarrow> RR" where
  "formatSRV res name target =
     (let ttl = (word_of_int (TTL (Config res)) :: 32 word)
      in RR_SRV \<lparr>Name = name, Rrtype = TypeSRV, Class = ClassINET, Ttl = ttl\<rparr>
           0 0 53 (target @ ''.''))"

definition formatAAAA :: "Net \<Rightarrow> Resolver \<Rightarrow> string \<Rightarrow> string \<Rightarrow> RR option" where
  "formatAAAA net res dom_n target =
     (let ttl = (word_of_int (TTL (Config res)) :: 32 word)
      in case ResolveIPAddr net ''ip6'' target of
           None \<Rightarrow> None
         | Some a \<Rightarrow>
             Some (RR_AAAA \<lparr>Name = dom_n, Rrtype = TypeAAAA, Class = ClassINET, Ttl = ttl\<rparr> a))"

definition formatA :: "Net \<Rightarrow> Resolver \<Rightarrow> string \<Rightarrow> string \<Rightarrow> RR option" where
  "formatA net res dom_n target =
     (let ttl = (word_of_int (TTL (Config res)) :: 32 word)
      in case ResolveIPAddr net ''ip4'' target of
           None \<Rightarrow> None
         | Some a \<Rightarrow>
             Some (RR_A \<lparr>Name = dom_n, Rrtype = TypeA, Class = ClassINET, Ttl = ttl\<rparr> (To4 a)))"

subsection \<open>shuffleAnswers\<close>

text \<open>
  The loop swaps position \<open>i\<close> with a position \<open>r\<close> drawn from \<open>i..n-1\<close>. Go evaluates both
  right-hand sides of the parallel assignment before it stores either.
\<close>

function shuffleLoop :: "(nat \<Rightarrow> nat) \<Rightarrow> nat \<Rightarrow> nat \<Rightarrow> RR list \<Rightarrow> RR list" where
  "shuffleLoop draw n i answers =
     (if i < n
      then (let r = i + draw i mod (n - i)
            in shuffleLoop draw n (i + 1) (answers[r := answers ! i, i := answers ! r]))
      else answers)"
  by pat_completeness auto
termination
  by (relation "measure (\<lambda>(draw, n, i, answers). n - i)") auto

definition shuffleAnswers :: "(nat \<Rightarrow> nat) \<Rightarrow> RR list \<Rightarrow> RR list" where
  "shuffleAnswers draw answers = shuffleLoop draw (length answers) 0 answers"

subsection \<open>HandleMesos\<close>

text \<open>
  The four loops of the handler, each over the slice \<open>res.rs.SRVs[dom]\<close>, appending to
  \<open>m.Answer\<close>. A target that does not resolve is printed and skipped.
\<close>

fun srvLoop :: "Resolver \<Rightarrow> string \<Rightarrow> string list \<Rightarrow> RR list \<Rightarrow> RR list" where
  "srvLoop res name [] answer = answer"
| "srvLoop res name (t # ts) answer = srvLoop res name ts (answer @ [formatSRV res name t])"

fun aaaaLoop :: "Net \<Rightarrow> Resolver \<Rightarrow> string \<Rightarrow> string list \<Rightarrow> RR list \<Rightarrow> RR list" where
  "aaaaLoop net res dom_n [] answer = answer"
| "aaaaLoop net res dom_n (t # ts) answer =
     aaaaLoop net res dom_n ts
       (case formatAAAA net res dom_n t of None \<Rightarrow> answer | Some rr \<Rightarrow> answer @ [rr])"

fun aLoop :: "Net \<Rightarrow> Resolver \<Rightarrow> string \<Rightarrow> string list \<Rightarrow> RR list \<Rightarrow> RR list" where
  "aLoop net res dom_n [] answer = answer"
| "aLoop net res dom_n (t # ts) answer =
     aLoop net res dom_n ts
       (case formatA net res dom_n t of None \<Rightarrow> answer | Some rr \<Rightarrow> answer @ [rr])"

fun anyLoop :: "Net \<Rightarrow> Resolver \<Rightarrow> string \<Rightarrow> string \<Rightarrow> string list \<Rightarrow> RR list \<Rightarrow> RR list" where
  "anyLoop net res name dom_n [] answer = answer"
| "anyLoop net res name dom_n (t # ts) answer =
     (let answer1 = (case formatA net res name t of None \<Rightarrow> answer | Some a \<Rightarrow> answer @ [a]);
          answer2 = (case formatAAAA net res dom_n t of
                       None \<Rightarrow> answer1 | Some aaaa \<Rightarrow> answer1 @ [aaaa]);
          answer3 = answer2 @ [formatSRV res dom_n t]
      in anyLoop net res name dom_n ts answer3)"

text \<open>
  The handler returns the message it hands to \<^verbatim>\<open>w.WriteMsg\<close>. Reading \<open>r.Question[0]\<close> of a
  request without a question is an index out of range.
\<close>

definition HandleMesos :: "Net \<Rightarrow> Resolver \<Rightarrow> Msg \<Rightarrow> Msg outcome" where
  "HandleMesos net res r =
     (case Question r of
        [] \<Rightarrow> Panic
      | q # _ \<Rightarrow>
          (let dom_n = cleanWild (QName q);
               qType = Qtype q;
               m = SetReply newMsg r;
               targets = at (SRVs (rs res)) dom_n;
               m1 = (if qType = TypeSRV
                       then m\<lparr>Answer := srvLoop res (QName q) targets (Answer m)\<rparr>
                     else if qType = TypeAAAA
                       then m\<lparr>Answer := aaaaLoop net res dom_n targets (Answer m)\<rparr>
                     else if qType = TypeA
                       then m\<lparr>Answer := aLoop net res dom_n targets (Answer m)\<rparr>
                     else if qType = TypeANY
                       then m\<lparr>Answer := anyLoop net res (QName q) dom_n targets (Answer m)\<rparr>
                     else m);
               m2 = m1\<lparr>Authoritative := True\<rparr>;
               m3 = m2\<lparr>Answer := shuffleAnswers (rnd net) (Answer m2)\<rparr>
           in Returned m3))"

text \<open>
  \<^verbatim>\<open>panicRecover\<close> (the main file): a handler that panics is answered with a reply
  of return code 2.
\<close>

definition panicRecover :: "(Msg \<Rightarrow> Msg outcome) \<Rightarrow> Msg \<Rightarrow> Msg outcome" where
  "panicRecover f r =
     (case f r of
        Panic \<Rightarrow> Returned ((SetReply newMsg r)\<lparr>Rcode := RcodeServerFailure\<rparr>)
      | other \<Rightarrow> other)"


declare shuffleLoop.simps [simp del]
declare Replace.simps [simp del]

section \<open>The configuration (records.Config and its Check)\<close>

text \<open>
  What \<open>Check\<close> takes from the machine it runs on: the name servers that
  \<^verbatim>\<open>dns.ClientConfigFromFile\<close> reads from a file (\<open>None\<close> when it returns an error), the
  addresses of \<^verbatim>\<open>net.InterfaceAddrs\<close> as strings (\<open>None\<close> when it returns an error),
  \<^verbatim>\<open>net.ParseCIDR\<close> (the address it parses, \<open>None\<close> on error), \<^verbatim>\<open>IP.String\<close> and
  \<^verbatim>\<open>strings.ToLower\<close>.
\<close>

record Host =
  ClientConfigFromFile :: "string \<Rightarrow> string list option"
  InterfaceAddrs :: "string list option"
  ParseCIDR :: "string \<Rightarrow> IP option"
  IP_String :: "IP \<Rightarrow> string"
  ToLower :: "string \<Rightarrow> string"

definition New :: Config where
  "New = \<lparr>Masters = [], RefreshSeconds = 60, TTL = 60, Port = 53, Domain_f = ''mesos'',
     Resolvers = [''8.8.8.8''], Timeout = 5, File = [], Email = ''root.mesos-dns.mesos'',
     Mname = [], Listener = ''0.0.0.0'', Verbose = False, VeryVerbose = False\<rparr>"

text \<open>
  \<open>localAddies\<close>: an error of \<open>InterfaceAddrs\<close> or \<open>ParseCIDR\<close> is logged and leaves the
  \<open>nil\<close> value, whose \<open>To4\<close> is \<open>nil\<close>.
\<close>

fun localAddiesLoop :: "Host \<Rightarrow> string list \<Rightarrow> string list \<Rightarrow> string list" where
  "localAddiesLoop h [] bad = bad"
| "localAddiesLoop h (a # addies) bad =
     (let ip = (case ParseCIDR h a of None \<Rightarrow> [] | Some ip \<Rightarrow> ip);
          t4 = To4 ip
      in localAddiesLoop h addies (if t4 \<noteq> [] then bad @ [IP_String h t4] else bad))"

definition localAddies :: "Host \<Rightarrow> string list" where
  "localAddies h =
     localAddiesLoop h (case InterfaceAddrs h of None \<Rightarrow> [] | Some addies \<Rightarrow> addies) []"

fun localLoop :: "string \<Rightarrow> string list \<Rightarrow> bool \<Rightarrow> bool" where
  "localLoop s [] local = local"
| "localLoop s (b # bad) local = localLoop s bad (if s = b then True else local)"

fun nonLocalLoop :: "string list \<Rightarrow> string list \<Rightarrow> string list \<Rightarrow> string list" where
  "nonLocalLoop bad [] good = good"
| "nonLocalLoop bad (s # cservers) good =
     (let local = localLoop s bad False
      in nonLocalLoop bad cservers (if \<not> local then good @ [s] else good))"

definition nonLocalAddies :: "Host \<Rightarrow> string list \<Rightarrow> string list" where
  "nonLocalAddies h cservers = nonLocalLoop (localAddies h) cservers []"

definition GetLocalDNS :: "Host \<Rightarrow> string list outcome" where
  "GetLocalDNS h =
     (case ClientConfigFromFile h ''/etc/resolv.conf'' of
        None \<Rightarrow> Exit 2
      | Some servers \<Rightarrow> Returned (nonLocalAddies h servers))"

text \<open>
  \<open>Check\<close> works on the configuration in place and returns an error or \<open>nil\<close>: the model
  returns the error (\<open>None\<close> for \<open>nil\<close>) with the configuration as it is left. Slicing
  the e-mail string from \<open>len - 1\<close> is out of range when the string is empty.
\<close>

definition Check :: "Host \<Rightarrow> Config \<Rightarrow> (string option \<times> Config) outcome" where
  "Check h conf =
     (if length (Masters conf) = 0
        then Returned (Some ''masters no in file, environment or args'', conf)
      else if Port conf < 0 \<or> Port conf > 65535
        then Returned (Some ''Port must be between 0-65535'', conf)
      else
        (case (if length (Resolvers conf) = 0 then GetLocalDNS h
               else Returned (Resolvers conf)) of
           Exit code \<Rightarrow> Exit code
         | Panic \<Rightarrow> Panic
         | Returned resolvers \<Rightarrow>
             (let conf1 = conf\<lparr>Resolvers := resolvers\<rparr>;
                  conf2 = conf1\<lparr>Email := Replace (Email conf1) ''@'' ''.''\<rparr>
              in if length (Email conf2) = 0 then Panic
                 else
                   (let conf3 = (if drop (length (Email conf2) - 1) (Email conf2) \<noteq> ''.''
                                 then conf2\<lparr>Email := Email conf2 @ ''.''\<rparr> else conf2);
                        conf4 = conf3\<lparr>Domain_f := ToLower h (Domain_f conf3)\<rparr>;
                        conf5 = conf4\<lparr>Mname := ''mesos-dns.'' @ Domain_f conf4 @ ''.''\<rparr>
                    in Returned (None, conf5)))))"

section \<open>The statements of the specification that are compared with the code\<close>

text \<open>
  The specification's wildcard rule, in its own words: every literal \<open>.*.\<close> of the name is
  collapsed to \<open>.\<close>.
\<close>

definition spec_collapseWild :: "string \<Rightarrow> string" where
  "spec_collapseWild qname = Replace qname ''.*.'' ''.''"

text \<open>A record with its owner name replaced: two answers agree up to the name when they
  agree after it.\<close>

fun withName :: "string \<Rightarrow> RR \<Rightarrow> RR" where
  "withName n (RR_A hdr a) = RR_A (hdr\<lparr>Name := n\<rparr>) a"
| "withName n (RR_AAAA hdr a) = RR_AAAA (hdr\<lparr>Name := n\<rparr>) a"
| "withName n (RR_SRV hdr p w port t) = RR_SRV (hdr\<lparr>Name := n\<rparr>) p w port t"

section \<open>The scenario of the handler's test\<close>

text \<open>
  A request as the test's \<open>fakeMsg\<close> builds it, the configuration of its \<open>fakeDNS\<close>, and
  a record set with the names of the specification's scenarios: the task \<open>chronos\<close> on
  \<open>10.141.141.10\<close> and three instances of \<open>liquor-store\<close> on ports 31000 to 31002.
\<close>

definition query :: "string \<Rightarrow> 16 word \<Rightarrow> Msg" where
  "query name qtype = newMsg\<lparr>Question := [\<lparr>QName = name, Qtype = qtype, Qclass = ClassINET\<rparr>]\<rparr>"

definition fakeConfig :: Config where
  "fakeConfig = \<lparr>Masters = [], RefreshSeconds = 0, TTL = 60, Port = 8053, Domain_f = ''mesos'',
     Resolvers = [''8.8.8.8''], Timeout = 0, File = [], Email = ''root.mesos-dns.mesos.'',
     Mname = ''mesos-dns.mesos.'', Listener = ''127.0.0.1'', Verbose = False,
     VeryVerbose = False\<rparr>"

definition fakeRecords :: RecordGenerator where
  "fakeRecords =
     \<lparr>As = [''chronos.marathon-0.6.0.mesos.'' \<mapsto> [''10.141.141.10''],
             ''liquor-store.marathon-0.6.0.mesos.'' \<mapsto>
               [''10.141.141.10'', ''10.141.141.10'', ''10.141.141.10'']],
      SRVs = [''_liquor-store._udp.marathon-0.6.0.mesos.'' \<mapsto>
               [''liquor-store.marathon-0.6.0.mesos.:31000'',
                ''liquor-store.marathon-0.6.0.mesos.:31001'',
                ''liquor-store.marathon-0.6.0.mesos.:31002'']]\<rparr>"

definition fakeDNS :: Resolver where
  "fakeDNS = \<lparr>rs = fakeRecords, Config = fakeConfig\<rparr>"

text \<open>A network that resolves the literal address of the scenario, and a generator that
  always draws 0.\<close>

definition fakeNet :: Net where
  "fakeNet =
     \<lparr>ResolveIPAddr = (\<lambda>network address.
          if network = ''ip4'' \<and> address = ''10.141.141.10'' then Some [10, 141, 141, 10]
          else None),
      rnd = (\<lambda>i. 0)\<rparr>"

text \<open>A machine whose resolver file cannot be read, and one where it names a server.\<close>

definition hostWithoutResolvConf :: Host where
  "hostWithoutResolvConf =
     \<lparr>ClientConfigFromFile = (\<lambda>file. None), InterfaceAddrs = Some [],
      ParseCIDR = (\<lambda>s. None), IP_String = (\<lambda>ip. []), ToLower = (\<lambda>s. s)\<rparr>"

definition hostWithResolvConf :: Host where
  "hostWithResolvConf =
     \<lparr>ClientConfigFromFile = (\<lambda>file. Some [''8.8.4.4'']), InterfaceAddrs = Some [],
      ParseCIDR = (\<lambda>s. None), IP_String = (\<lambda>ip. []), ToLower = (\<lambda>s. s)\<rparr>"


section \<open>Properties of the string functions\<close>

lemma Replace_char:
  "Replace s [a] [b] = map (\<lambda>c. if c = a then b else c) s"
  by (induction s) (simp_all add: Replace.simps)

lemma Replace_absent: "\<not> Contains s old \<Longrightarrow> Replace s old new = s"
  by (induction s) (simp_all add: Replace.simps)

lemma cleanWild_Replace: "cleanWild d = Replace d ''.*'' []"
  by (simp add: cleanWild_def Replace_absent)

section \<open>The shuffle is a permutation\<close>

lemma shuffleLoop_length: "length (shuffleLoop draw n i answers) = length answers"
proof (induction draw n i answers rule: shuffleLoop.induct)
  case (1 draw n i answers)
  show ?case
  proof (cases "i < n")
    case True
    with "1" show ?thesis by (subst shuffleLoop.simps) (simp add: Let_def)
  next
    case False
    then show ?thesis by (subst shuffleLoop.simps) simp
  qed
qed

lemma draw_in_range: "i < n \<Longrightarrow> i + draw i mod (n - i) < (n::nat)"
proof -
  assume "i < n"
  then have "draw i mod (n - i) < n - i" by simp
  then show ?thesis by linarith
qed

lemma shuffleLoop_mset:
  "n = length answers \<Longrightarrow> mset (shuffleLoop draw n i answers) = mset answers"
proof (induction draw n i answers rule: shuffleLoop.induct)
  case (1 draw n i answers)
  show ?case
  proof (cases "i < n")
    case True
    define r where "r = i + draw i mod (n - i)"
    have r: "r < length answers" using "1.prems" True draw_in_range [of i n draw] by (simp add: r_def)
    have i: "i < length answers" using "1.prems" True by simp
    have sw: "mset (answers[r := answers ! i, i := answers ! r]) = mset answers"
      using mset_swap [OF i r] .
    have "mset (shuffleLoop draw n (i + 1) (answers[r := answers ! i, i := answers ! r]))
          = mset (answers[r := answers ! i, i := answers ! r])"
      using "1.IH" [OF True r_def] "1.prems" by simp
    then show ?thesis
      using True sw by (subst shuffleLoop.simps) (simp add: Let_def r_def)
  next
    case False
    then show ?thesis by (subst shuffleLoop.simps) simp
  qed
qed

lemma shuffleLoop_map:
  "n = length answers \<Longrightarrow>
   shuffleLoop draw n i (map f answers) = map f (shuffleLoop draw n i answers)"
proof (induction draw n i answers rule: shuffleLoop.induct)
  case (1 draw n i answers)
  show ?case
  proof (cases "i < n")
    case True
    define r where "r = i + draw i mod (n - i)"
    have r: "r < length answers" using "1.prems" True draw_in_range [of i n draw] by (simp add: r_def)
    have i: "i < length answers" using "1.prems" True by simp
    have step: "(map f answers)[r := map f answers ! i, i := map f answers ! r]
                = map f (answers[r := answers ! i, i := answers ! r])"
      using r i by (simp add: map_update)
    have ih: "shuffleLoop draw n (i + 1) (map f (answers[r := answers ! i, i := answers ! r]))
          = map f (shuffleLoop draw n (i + 1) (answers[r := answers ! i, i := answers ! r]))"
      using "1.IH" [OF True r_def] "1.prems" by simp
    have l: "shuffleLoop draw n i (map f answers)
             = shuffleLoop draw n (i + 1) ((map f answers)[r := map f answers ! i, i := map f answers ! r])"
      using True by (subst shuffleLoop.simps) (simp add: Let_def r_def)
    have rr: "shuffleLoop draw n i answers
             = shuffleLoop draw n (i + 1) (answers[r := answers ! i, i := answers ! r])"
      using True by (subst shuffleLoop.simps) (simp add: Let_def r_def)
    show ?thesis by (simp only: l rr step ih)
  next
    case False
    then show ?thesis by (simp add: shuffleLoop.simps)
  qed
qed

lemma shuffleAnswers_map:
  "shuffleAnswers draw (map f answers) = map f (shuffleAnswers draw answers)"
  by (simp add: shuffleAnswers_def shuffleLoop_map)

text \<open>
  Claim C6. Whatever numbers the generator draws, \<open>shuffleAnswers\<close> returns a permutation
  of the list it is given: the multiset of records is the same before and after, and so is
  the length; no record is dropped or repeated.
\<close>

theorem shuffleAnswers_permutes:
  "mset (shuffleAnswers draw answers) = mset answers \<and>
   length (shuffleAnswers draw answers) = length answers"
  by (simp add: shuffleAnswers_def shuffleLoop_mset shuffleLoop_length)

section \<open>The loops of the handler\<close>

lemma srvLoop_eq: "srvLoop res name ts answer = answer @ map (formatSRV res name) ts"
  by (induction ts arbitrary: answer) simp_all

lemma aLoop_eq:
  "aLoop net res d ts answer =
   answer @ concat (map (\<lambda>t. case formatA net res d t of None \<Rightarrow> [] | Some rr \<Rightarrow> [rr]) ts)"
  by (induction ts arbitrary: answer) (simp_all split: option.splits)

lemma aaaaLoop_eq:
  "aaaaLoop net res d ts answer =
   answer @ concat (map (\<lambda>t. case formatAAAA net res d t of None \<Rightarrow> [] | Some rr \<Rightarrow> [rr]) ts)"
  by (induction ts arbitrary: answer) (simp_all split: option.splits)

lemma anyLoop_eq:
  "anyLoop net res name d ts answer =
   answer @ concat (map (\<lambda>t.
      (case formatA net res name t of None \<Rightarrow> [] | Some rr \<Rightarrow> [rr]) @
      (case formatAAAA net res d t of None \<Rightarrow> [] | Some rr \<Rightarrow> [rr]) @
      [formatSRV res d t]) ts)"
  by (induction ts arbitrary: answer) (simp_all add: Let_def split: option.splits)

section \<open>What the handler returns\<close>

lemma shuffleAnswers_mset: "mset (shuffleAnswers draw answers) = mset answers"
  by (simp add: shuffleAnswers_def shuffleLoop_mset)

lemma Types_distinct:
  "TypeSRV \<noteq> TypeAAAA" "TypeSRV \<noteq> TypeA" "TypeSRV \<noteq> TypeANY"
  "TypeAAAA \<noteq> TypeSRV" "TypeAAAA \<noteq> TypeA" "TypeAAAA \<noteq> TypeANY"
  "TypeA \<noteq> TypeSRV" "TypeA \<noteq> TypeAAAA" "TypeA \<noteq> TypeANY"
  "TypeANY \<noteq> TypeSRV" "TypeANY \<noteq> TypeAAAA" "TypeANY \<noteq> TypeA"
  by (simp_all add: TypeSRV_def TypeAAAA_def TypeA_def TypeANY_def)

lemma HandleMesos_A:
  assumes "Question r = q # qs" and "Qtype q = TypeA"
  shows "HandleMesos net res r =
    Returned ((SetReply newMsg r)
      \<lparr>Authoritative := True,
       Answer := shuffleAnswers (rnd net)
         (concat (map (\<lambda>t. case formatA net res (cleanWild (QName q)) t of
                               None \<Rightarrow> [] | Some rr \<Rightarrow> [rr])
                      (at (SRVs (rs res)) (cleanWild (QName q)))))\<rparr>)"
  using assms
  by (simp add: HandleMesos_def Let_def Types_distinct aLoop_eq SetReply_def newMsg_def)

lemma HandleMesos_AAAA:
  assumes "Question r = q # qs" and "Qtype q = TypeAAAA"
  shows "HandleMesos net res r =
    Returned ((SetReply newMsg r)
      \<lparr>Authoritative := True,
       Answer := shuffleAnswers (rnd net)
         (concat (map (\<lambda>t. case formatAAAA net res (cleanWild (QName q)) t of
                               None \<Rightarrow> [] | Some rr \<Rightarrow> [rr])
                      (at (SRVs (rs res)) (cleanWild (QName q)))))\<rparr>)"
  using assms
  by (simp add: HandleMesos_def Let_def Types_distinct aaaaLoop_eq SetReply_def newMsg_def)

lemma HandleMesos_SRV:
  assumes "Question r = q # qs" and "Qtype q = TypeSRV"
  shows "HandleMesos net res r =
    Returned ((SetReply newMsg r)
      \<lparr>Authoritative := True,
       Answer := shuffleAnswers (rnd net)
         (map (formatSRV res (QName q)) (at (SRVs (rs res)) (cleanWild (QName q))))\<rparr>)"
  using assms
  by (simp add: HandleMesos_def Let_def Types_distinct srvLoop_eq SetReply_def newMsg_def)

lemma HandleMesos_ANY:
  assumes "Question r = q # qs" and "Qtype q = TypeANY"
  shows "HandleMesos net res r =
    Returned ((SetReply newMsg r)
      \<lparr>Authoritative := True,
       Answer := shuffleAnswers (rnd net)
         (concat (map (\<lambda>t.
            (case formatA net res (QName q) t of None \<Rightarrow> [] | Some rr \<Rightarrow> [rr]) @
            (case formatAAAA net res (cleanWild (QName q)) t of None \<Rightarrow> [] | Some rr \<Rightarrow> [rr]) @
            [formatSRV res (cleanWild (QName q)) t])
          (at (SRVs (rs res)) (cleanWild (QName q)))))\<rparr>)"
  using assms
  by (simp add: HandleMesos_def Let_def Types_distinct anyLoop_eq SetReply_def newMsg_def)

lemma HandleMesos_other:
  assumes "Question r = q # qs" and "Qtype q \<noteq> TypeSRV" and "Qtype q \<noteq> TypeAAAA"
    and "Qtype q \<noteq> TypeA" and "Qtype q \<noteq> TypeANY"
  shows "HandleMesos net res r =
    Returned ((SetReply newMsg r)\<lparr>Authoritative := True, Answer := []\<rparr>)"
  using assms
  by (simp add: HandleMesos_def Let_def SetReply_def newMsg_def shuffleAnswers_def
      shuffleLoop.simps)

lemma withName_formatA:
  "map (withName n) (case formatA net res d t of None \<Rightarrow> [] | Some rr \<Rightarrow> [rr]) =
   map (withName n) (case formatA net res d' t of None \<Rightarrow> [] | Some rr \<Rightarrow> [rr])"
  by (simp add: formatA_def Let_def split: option.splits)

lemma withName_formatSRV:
  "withName n (formatSRV res d t) = withName n (formatSRV res d' t)"
  by (simp add: formatSRV_def Let_def)

lemma withName_formatSRV_comp:
  "withName n \<circ> formatSRV res d = withName n \<circ> formatSRV res d'"
  by (rule ext) (simp add: formatSRV_def Let_def)

lemma formatA_same_resolver:
  "ResolveIPAddr net' = ResolveIPAddr net \<Longrightarrow> formatA net' res d t = formatA net res d t"
  by (simp add: formatA_def)

lemma formatAAAA_same_resolver:
  "ResolveIPAddr net' = ResolveIPAddr net \<Longrightarrow>
   formatAAAA net' res d t = formatAAAA net res d t"
  by (simp add: formatAAAA_def)

lemma shuffleAnswers_length: "length (shuffleAnswers draw answers) = length answers"
  by (simp add: shuffleAnswers_def shuffleLoop_length)

lemma shuffled_up_to:
  assumes "map f answers' = map f answers"
  shows "mset (map f (shuffleAnswers draw' answers')) = mset (map f (shuffleAnswers draw answers))"
proof -
  have "mset (map f (shuffleAnswers draw' answers')) = image_mset f (mset answers')"
    by (simp add: shuffleAnswers_mset)
  also have "\<dots> = mset (map f answers')" by simp
  also have "\<dots> = mset (map f answers)" by (simp only: assms)
  also have "\<dots> = image_mset f (mset answers)" by simp
  also have "\<dots> = mset (map f (shuffleAnswers draw answers))"
    by (simp add: shuffleAnswers_mset)
  finally show ?thesis .
qed

lemma formatSRV_other_rs: "formatSRV (res\<lparr>rs := x\<rparr>) = formatSRV res"
  by (rule ext, rule ext) (simp add: formatSRV_def)

lemma HandleMesos_other_SRVs:
  assumes "Question r = q # qs"
    and "at srvs' (cleanWild (QName q)) = at (SRVs (rs res)) (cleanWild (QName q))"
  shows "HandleMesos net (res\<lparr>rs := (rs res)\<lparr>SRVs := srvs'\<rparr>\<rparr>) r = HandleMesos net res r"
  using assms
  by (simp add: HandleMesos_def Let_def srvLoop_eq aLoop_eq aaaaLoop_eq anyLoop_eq
      formatA_def formatAAAA_def formatSRV_other_rs)

lemma HandleMesos_same_stripped_name:
  assumes "Question r = q # qs" and "Question r' = q' # qs'"
    and "Qtype q' = Qtype q" and "cleanWild (QName q') = cleanWild (QName q)"
    and "ResolveIPAddr net' = ResolveIPAddr net"
  shows "\<exists>m m'. HandleMesos net res r = Returned m \<and> HandleMesos net' res r' = Returned m' \<and>
       (if Qtype q = TypeSRV
        then length (Answer m) = length (at (SRVs (rs res)) (cleanWild (QName q)))
        else True) \<and>
       Rcode m' = Rcode m \<and> Ns m' = Ns m \<and>
       mset (map (withName n) (Answer m')) = mset (map (withName n) (Answer m)) \<and>
       (if Qtype q = TypeA \<or> Qtype q = TypeAAAA then mset (Answer m') = mset (Answer m)
        else True)"
proof -
  note fa = formatA_same_resolver [OF assms(5)]
  note f6 = formatAAAA_same_resolver [OF assms(5)]
  let ?k = "cleanWild (QName q)"
  let ?ts = "at (SRVs (rs res)) ?k"
  have shape: "\<exists>m m'. HandleMesos net res r = Returned m \<and> HandleMesos net' res r' = Returned m' \<and>
       (if Qtype q = TypeSRV then length (Answer m) = length ?ts else True) \<and>
       Rcode m' = Rcode m \<and> Ns m' = Ns m \<and>
       mset (map (withName n) (Answer m')) = mset (map (withName n) (Answer m)) \<and>
       (if Qtype q = TypeA \<or> Qtype q = TypeAAAA then mset (Answer m') = mset (Answer m)
        else True)"
    if hm: "HandleMesos net res r =
              Returned ((SetReply newMsg r)\<lparr>Authoritative := True,
                          Answer := shuffleAnswers (rnd net) L\<rparr>)"
      and hm': "HandleMesos net' res r' =
              Returned ((SetReply newMsg r')\<lparr>Authoritative := True,
                          Answer := shuffleAnswers (rnd net') L'\<rparr>)"
      and e: "map (withName n) L' = map (withName n) L"
      and len: "Qtype q = TypeSRV \<Longrightarrow> length L = length ?ts"
      and same: "Qtype q = TypeA \<or> Qtype q = TypeAAAA \<Longrightarrow> L' = L"
    for L L'
  proof (intro exI conjI)
    show "HandleMesos net res r = Returned ((SetReply newMsg r)\<lparr>Authoritative := True,
                          Answer := shuffleAnswers (rnd net) L\<rparr>)" by (rule hm)
    show "HandleMesos net' res r' = Returned ((SetReply newMsg r')\<lparr>Authoritative := True,
                          Answer := shuffleAnswers (rnd net') L'\<rparr>)" by (rule hm')
    show "if Qtype q = TypeSRV
          then length (Answer ((SetReply newMsg r)\<lparr>Authoritative := True,
                          Answer := shuffleAnswers (rnd net) L\<rparr>)) = length ?ts
          else True"
      using len by (simp add: shuffleAnswers_length)
    show "Rcode ((SetReply newMsg r')\<lparr>Authoritative := True,
                          Answer := shuffleAnswers (rnd net') L'\<rparr>) =
          Rcode ((SetReply newMsg r)\<lparr>Authoritative := True,
                          Answer := shuffleAnswers (rnd net) L\<rparr>)"
      by (simp add: SetReply_def)
    show "Ns ((SetReply newMsg r')\<lparr>Authoritative := True,
                          Answer := shuffleAnswers (rnd net') L'\<rparr>) =
          Ns ((SetReply newMsg r)\<lparr>Authoritative := True,
                          Answer := shuffleAnswers (rnd net) L\<rparr>)"
      by (simp add: SetReply_def)
    show "mset (map (withName n) (Answer ((SetReply newMsg r')\<lparr>Authoritative := True,
                          Answer := shuffleAnswers (rnd net') L'\<rparr>))) =
          mset (map (withName n) (Answer ((SetReply newMsg r)\<lparr>Authoritative := True,
                          Answer := shuffleAnswers (rnd net) L\<rparr>)))"
      using shuffled_up_to [OF e, of "rnd net'" "rnd net"] by simp
    show "if Qtype q = TypeA \<or> Qtype q = TypeAAAA
          then mset (Answer ((SetReply newMsg r')\<lparr>Authoritative := True,
                          Answer := shuffleAnswers (rnd net') L'\<rparr>)) =
               mset (Answer ((SetReply newMsg r)\<lparr>Authoritative := True,
                          Answer := shuffleAnswers (rnd net) L\<rparr>))
          else True"
      using same by (auto simp add: shuffleAnswers_mset)
  qed
  consider (srv) "Qtype q = TypeSRV" | (aaaa) "Qtype q = TypeAAAA" | (a) "Qtype q = TypeA"
    | (any) "Qtype q = TypeANY"
    | (other) "Qtype q \<noteq> TypeSRV" "Qtype q \<noteq> TypeAAAA" "Qtype q \<noteq> TypeA" "Qtype q \<noteq> TypeANY"
    by blast
  then show ?thesis
  proof cases
    case srv
    then have t': "Qtype q' = TypeSRV" using assms(3) by simp
    show ?thesis
    proof (rule shape)
      show "HandleMesos net res r = Returned ((SetReply newMsg r)\<lparr>Authoritative := True,
              Answer := shuffleAnswers (rnd net) (map (formatSRV res (QName q)) ?ts)\<rparr>)"
        by (rule HandleMesos_SRV [OF assms(1) srv])
      show "HandleMesos net' res r' = Returned ((SetReply newMsg r')\<lparr>Authoritative := True,
              Answer := shuffleAnswers (rnd net') (map (formatSRV res (QName q')) ?ts)\<rparr>)"
        using HandleMesos_SRV [OF assms(2) t', of net' res] by (simp only: assms(4))
      show "map (withName n) (map (formatSRV res (QName q')) ?ts) =
            map (withName n) (map (formatSRV res (QName q)) ?ts)"
        by (simp add: withName_formatSRV_comp [of n res "QName q'" "QName q"])
      show "length (map (formatSRV res (QName q)) ?ts) = length ?ts" by simp
      show "map (formatSRV res (QName q')) ?ts = map (formatSRV res (QName q)) ?ts"
        if "Qtype q = TypeA \<or> Qtype q = TypeAAAA"
        using that srv by (simp add: Types_distinct)
    qed
  next
    case aaaa
    then have t': "Qtype q' = TypeAAAA" using assms(3) by simp
    let ?L = "concat (map (\<lambda>t. case formatAAAA net res ?k t of None \<Rightarrow> [] | Some rr \<Rightarrow> [rr]) ?ts)"
    show ?thesis
    proof (rule shape)
      show "HandleMesos net res r = Returned ((SetReply newMsg r)\<lparr>Authoritative := True,
              Answer := shuffleAnswers (rnd net) ?L\<rparr>)"
        by (rule HandleMesos_AAAA [OF assms(1) aaaa])
      show "HandleMesos net' res r' = Returned ((SetReply newMsg r')\<lparr>Authoritative := True,
              Answer := shuffleAnswers (rnd net') ?L\<rparr>)"
        using HandleMesos_AAAA [OF assms(2) t', of net' res] by (simp only: assms(4) f6)
      show "map (withName n) ?L = map (withName n) ?L" by (rule refl)
      show "length ?L = length ?ts" if "Qtype q = TypeSRV"
        using that aaaa by (simp add: Types_distinct)
      show "?L = ?L" by (rule refl)
    qed
  next
    case a
    then have t': "Qtype q' = TypeA" using assms(3) by simp
    let ?L = "concat (map (\<lambda>t. case formatA net res ?k t of None \<Rightarrow> [] | Some rr \<Rightarrow> [rr]) ?ts)"
    show ?thesis
    proof (rule shape)
      show "HandleMesos net res r = Returned ((SetReply newMsg r)\<lparr>Authoritative := True,
              Answer := shuffleAnswers (rnd net) ?L\<rparr>)"
        by (rule HandleMesos_A [OF assms(1) a])
      show "HandleMesos net' res r' = Returned ((SetReply newMsg r')\<lparr>Authoritative := True,
              Answer := shuffleAnswers (rnd net') ?L\<rparr>)"
        using HandleMesos_A [OF assms(2) t', of net' res] by (simp only: assms(4) fa)
      show "map (withName n) ?L = map (withName n) ?L" by (rule refl)
      show "length ?L = length ?ts" if "Qtype q = TypeSRV"
        using that a by (simp add: Types_distinct)
      show "?L = ?L" by (rule refl)
    qed
  next
    case any
    then have t': "Qtype q' = TypeANY" using assms(3) by simp
    let ?L = "\<lambda>name. concat (map (\<lambda>t.
            (case formatA net res name t of None \<Rightarrow> [] | Some rr \<Rightarrow> [rr]) @
            (case formatAAAA net res ?k t of None \<Rightarrow> [] | Some rr \<Rightarrow> [rr]) @
            [formatSRV res ?k t]) ?ts)"
    have e: "map (withName n) (concat (map (\<lambda>t.
            (case formatA net res (QName q') t of None \<Rightarrow> [] | Some rr \<Rightarrow> [rr]) @
            (case formatAAAA net res ?k t of None \<Rightarrow> [] | Some rr \<Rightarrow> [rr]) @
            [formatSRV res ?k t]) ts))
        = map (withName n) (concat (map (\<lambda>t.
            (case formatA net res (QName q) t of None \<Rightarrow> [] | Some rr \<Rightarrow> [rr]) @
            (case formatAAAA net res ?k t of None \<Rightarrow> [] | Some rr \<Rightarrow> [rr]) @
            [formatSRV res ?k t]) ts))" for ts
      by (induction ts) (simp_all add: withName_formatA [of n net res "QName q'" _ "QName q"])
    show ?thesis
    proof (rule shape)
      show "HandleMesos net res r = Returned ((SetReply newMsg r)\<lparr>Authoritative := True,
              Answer := shuffleAnswers (rnd net) (?L (QName q))\<rparr>)"
        by (rule HandleMesos_ANY [OF assms(1) any])
      show "HandleMesos net' res r' = Returned ((SetReply newMsg r')\<lparr>Authoritative := True,
              Answer := shuffleAnswers (rnd net') (?L (QName q'))\<rparr>)"
        using HandleMesos_ANY [OF assms(2) t', of net' res] by (simp only: assms(4) fa f6)
      show "map (withName n) (?L (QName q')) = map (withName n) (?L (QName q))" by (rule e)
      show "length (?L (QName q)) = length ?ts" if "Qtype q = TypeSRV"
        using that any by (simp add: Types_distinct)
      show "?L (QName q') = ?L (QName q)" if "Qtype q = TypeA \<or> Qtype q = TypeAAAA"
        using that any by (simp add: Types_distinct)
    qed
  next
    case other
    then have t': "Qtype q' \<noteq> TypeSRV" "Qtype q' \<noteq> TypeAAAA" "Qtype q' \<noteq> TypeA"
      "Qtype q' \<noteq> TypeANY"
      using assms(3) by simp_all
    have s0: "shuffleAnswers draw [] = []" for draw
      by (simp add: shuffleAnswers_def shuffleLoop.simps)
    show ?thesis
    proof (rule shape)
      show "HandleMesos net res r = Returned ((SetReply newMsg r)\<lparr>Authoritative := True,
              Answer := shuffleAnswers (rnd net) []\<rparr>)"
        using HandleMesos_other [OF assms(1) other, of net res] by (simp only: s0)
      show "HandleMesos net' res r' = Returned ((SetReply newMsg r')\<lparr>Authoritative := True,
              Answer := shuffleAnswers (rnd net') []\<rparr>)"
        using HandleMesos_other [OF assms(2) t', of net' res] by (simp only: s0)
      show "map (withName n) [] = map (withName n) []" by (rule refl)
      show "length ([]::RR list) = length ?ts" if "Qtype q = TypeSRV"
        using that other by simp
      show "([]::RR list) = []" by (rule refl)
    qed
  qed
qed

text \<open>
  Claim C8, as the code has it. The name used for the lookup is the requested name with
  every occurrence of the two characters \<open>.*\<close> removed: an SRV query gets one answer for
  each value that \<open>SRVs\<close> holds under that name, and the reply to any query stays the same
  when \<open>SRVs\<close> is changed at other names. Two requests of the same type whose names agree
  after the removal, answered from the same records and with the same results of address
  resolution, get the same return code, the same Authority section and, as multisets (the
  order is drawn anew for every reply), the same Answer section up to the owner name of the
  records; for types A and AAAA the records themselves are the same.
\<close>

theorem cleanWild_lookup:
  assumes "Question r = q # qs" and "Question r' = q' # qs'"
    and "Qtype q' = Qtype q" and "cleanWild (QName q') = cleanWild (QName q)"
    and "ResolveIPAddr net' = ResolveIPAddr net"
    and "at srvs' (cleanWild (QName q)) = at (SRVs (rs res)) (cleanWild (QName q))"
  shows "cleanWild (QName q) = Replace (QName q) ''.*'' [] \<and>
    HandleMesos net (res\<lparr>rs := (rs res)\<lparr>SRVs := srvs'\<rparr>\<rparr>) r = HandleMesos net res r \<and>
    (\<exists>m m'. HandleMesos net res r = Returned m \<and> HandleMesos net' res r' = Returned m' \<and>
       (if Qtype q = TypeSRV
        then length (Answer m) = length (at (SRVs (rs res)) (Replace (QName q) ''.*'' []))
        else True) \<and>
       Rcode m' = Rcode m \<and> Ns m' = Ns m \<and>
       mset (map (withName n) (Answer m')) = mset (map (withName n) (Answer m)) \<and>
       (if Qtype q = TypeA \<or> Qtype q = TypeAAAA then mset (Answer m') = mset (Answer m)
        else True))"
proof -
  have eq: "Replace (QName q) ''.*'' [] = cleanWild (QName q)"
    by (simp add: cleanWild_Replace)
  show ?thesis
    unfolding eq
  proof (intro conjI)
    show "cleanWild (QName q) = cleanWild (QName q)" by (rule refl)
    show "HandleMesos net (res\<lparr>rs := (rs res)\<lparr>SRVs := srvs'\<rparr>\<rparr>) r = HandleMesos net res r"
      by (rule HandleMesos_other_SRVs [OF assms(1) assms(6)])
    show "\<exists>m m'. HandleMesos net res r = Returned m \<and> HandleMesos net' res r' = Returned m' \<and>
       (if Qtype q = TypeSRV
        then length (Answer m) = length (at (SRVs (rs res)) (cleanWild (QName q)))
        else True) \<and>
       Rcode m' = Rcode m \<and> Ns m' = Ns m \<and>
       mset (map (withName n) (Answer m')) = mset (map (withName n) (Answer m)) \<and>
       (if Qtype q = TypeA \<or> Qtype q = TypeAAAA then mset (Answer m') = mset (Answer m)
        else True)"
      by (rule HandleMesos_same_stripped_name [OF assms(1-5)])
  qed
qed

text \<open>
  Claim C1 at the first query of the handler's test: the name
  \<open>chronos.marathon-0.6.0.mesos.\<close> is a key of \<open>As\<close> with the address
  \<open>10.141.141.10\<close>, and the A query for it is answered with no record. The branch for
  type A walks \<open>SRVs[dom]\<close> and never reads \<open>As\<close>.
\<close>

theorem A_query_for_chronos_unanswered:
  "at (As (rs fakeDNS)) (cleanWild ''chronos.marathon-0.6.0.mesos.'') = [''10.141.141.10''] \<and>
   HandleMesos fakeNet fakeDNS (query ''chronos.marathon-0.6.0.mesos.'' TypeA) =
     Returned \<lparr>Id_f = 0, Response = True, Authoritative = True, RecursionDesired = False,
       Rcode = 0,
       Question = [\<lparr>QName = ''chronos.marathon-0.6.0.mesos.'', Qtype = 1, Qclass = 1\<rparr>],
       Answer = [], Ns = [], Extra = []\<rparr>"
  by code_simp

text \<open>
  Claim C2 at the three instances of \<open>liquor-store\<close>: each stored value gives one SRV record
  of priority 0 and weight 0, but \<open>formatSRV\<close> writes the constant port 53 and the whole
  value, port included, as the target.
\<close>

theorem SRV_port_and_target_at_liquor_store:
  "HandleMesos fakeNet fakeDNS (query ''_liquor-store._udp.marathon-0.6.0.mesos.'' TypeSRV) =
     Returned \<lparr>Id_f = 0, Response = True, Authoritative = True, RecursionDesired = False,
       Rcode = 0,
       Question = [\<lparr>QName = ''_liquor-store._udp.marathon-0.6.0.mesos.'', Qtype = 33,
                    Qclass = 1\<rparr>],
       Answer =
         [RR_SRV \<lparr>Name = ''_liquor-store._udp.marathon-0.6.0.mesos.'', Rrtype = 33, Class = 1,
                  Ttl = 60\<rparr> 0 0 53 ''liquor-store.marathon-0.6.0.mesos.:31000.'',
          RR_SRV \<lparr>Name = ''_liquor-store._udp.marathon-0.6.0.mesos.'', Rrtype = 33, Class = 1,
                  Ttl = 60\<rparr> 0 0 53 ''liquor-store.marathon-0.6.0.mesos.:31001.'',
          RR_SRV \<lparr>Name = ''_liquor-store._udp.marathon-0.6.0.mesos.'', Rrtype = 33, Class = 1,
                  Ttl = 60\<rparr> 0 0 53 ''liquor-store.marathon-0.6.0.mesos.:31002.''],
       Ns = [], Extra = []\<rparr>"
  by code_simp

text \<open>
  Claim C3 at a name that no map holds: the AAAA query for \<open>missing.mesos.\<close> is answered
  with return code 0, where the claim and the handler's test expect 3.
\<close>

theorem AAAA_missing_name_rcode:
  "HandleMesos fakeNet fakeDNS (query ''missing.mesos.'' TypeAAAA) =
     Returned \<lparr>Id_f = 0, Response = True, Authoritative = True, RecursionDesired = False,
       Rcode = 0, Question = [\<lparr>QName = ''missing.mesos.'', Qtype = 28, Qclass = 1\<rparr>],
       Answer = [], Ns = [], Extra = []\<rparr>"
  by code_simp

text \<open>
  Claim C4 at the same name and type A: the return code is 0 and the Authority section is
  empty, where the claim expects return code 3 and an SOA record.
\<close>

theorem A_missing_name_rcode:
  "HandleMesos fakeNet fakeDNS (query ''missing.mesos.'' TypeA) =
     Returned \<lparr>Id_f = 0, Response = True, Authoritative = True, RecursionDesired = False,
       Rcode = 0, Question = [\<lparr>QName = ''missing.mesos.'', Qtype = 1, Qclass = 1\<rparr>],
       Answer = [], Ns = [], Extra = []\<rparr>"
  by code_simp

text \<open>
  Claim C5: the handler looks the name up as it was sent. The upper-case spelling of a name
  that has three SRV values is answered with no record, the lower-case spelling with three.
\<close>

theorem SRV_case_variant_unanswered:
  "HandleMesos fakeNet fakeDNS (query ''_LIQUOR-STORE._UDP.MARATHON-0.6.0.MESOS.'' TypeSRV) =
     Returned \<lparr>Id_f = 0, Response = True, Authoritative = True, RecursionDesired = False,
       Rcode = 0,
       Question = [\<lparr>QName = ''_LIQUOR-STORE._UDP.MARATHON-0.6.0.MESOS.'', Qtype = 33,
                    Qclass = 1\<rparr>],
       Answer = [], Ns = [], Extra = []\<rparr> \<and>
   HandleMesos fakeNet fakeDNS (query ''_liquor-store._udp.marathon-0.6.0.mesos.'' TypeSRV) =
     Returned \<lparr>Id_f = 0, Response = True, Authoritative = True, RecursionDesired = False,
       Rcode = 0,
       Question = [\<lparr>QName = ''_liquor-store._udp.marathon-0.6.0.mesos.'', Qtype = 33,
                    Qclass = 1\<rparr>],
       Answer =
         [RR_SRV \<lparr>Name = ''_liquor-store._udp.marathon-0.6.0.mesos.'', Rrtype = 33, Class = 1,
                  Ttl = 60\<rparr> 0 0 53 ''liquor-store.marathon-0.6.0.mesos.:31000.'',
          RR_SRV \<lparr>Name = ''_liquor-store._udp.marathon-0.6.0.mesos.'', Rrtype = 33, Class = 1,
                  Ttl = 60\<rparr> 0 0 53 ''liquor-store.marathon-0.6.0.mesos.:31001.'',
          RR_SRV \<lparr>Name = ''_liquor-store._udp.marathon-0.6.0.mesos.'', Rrtype = 33, Class = 1,
                  Ttl = 60\<rparr> 0 0 53 ''liquor-store.marathon-0.6.0.mesos.:31002.''],
       Ns = [], Extra = []\<rparr>"
  by code_simp

text \<open>
  Claim C7: a query of type SOA falls into the empty last branch of the handler; the Answer
  and Authority sections are both empty (the return code is 0).
\<close>

theorem SOA_query_unanswered:
  "HandleMesos fakeNet fakeDNS (query ''non-existing.mesos.'' TypeSOA) =
     Returned \<lparr>Id_f = 0, Response = True, Authoritative = True, RecursionDesired = False,
       Rcode = 0, Question = [\<lparr>QName = ''non-existing.mesos.'', Qtype = 6, Qclass = 1\<rparr>],
       Answer = [], Ns = [], Extra = []\<rparr>"
  by code_simp

text \<open>
  Claim C8 as the specification states it fails: \<open>a.*b.mesos.\<close> has no \<open>.*.\<close> to
  collapse, yet the handler looks it up as \<open>ab.mesos.\<close> and answers from the records of
  that name.
\<close>

theorem cleanWild_not_collapse_counterexample:
  "cleanWild ''a.*b.mesos.'' = ''ab.mesos.'' \<and>
   spec_collapseWild ''a.*b.mesos.'' = ''a.*b.mesos.'' \<and>
   HandleMesos fakeNet
     (fakeDNS\<lparr>rs := \<lparr>As = Map.empty, SRVs = [''ab.mesos.'' \<mapsto> [''ab.mesos.:31000'']]\<rparr>\<rparr>)
     (query ''a.*b.mesos.'' TypeSRV) =
     Returned \<lparr>Id_f = 0, Response = True, Authoritative = True, RecursionDesired = False,
       Rcode = 0, Question = [\<lparr>QName = ''a.*b.mesos.'', Qtype = 33, Qclass = 1\<rparr>],
       Answer = [RR_SRV \<lparr>Name = ''a.*b.mesos.'', Rrtype = 33, Class = 1, Ttl = 60\<rparr>
                   0 0 53 ''ab.mesos.:31000.''],
       Ns = [], Extra = []\<rparr>"
  by code_simp

text \<open>
  The statement at the SRV queries for \<open>bob.*.mesos.\<close> and \<open>bob.mesos.\<close>, with two
  values stored under \<open>bob.mesos.\<close>, a second record set that also holds another name, and
  two generators that draw different numbers: the wildcard query gets two answers, and the
  two replies list them in different orders.
\<close>

theorem cleanWild_lookup_witness:
  "HandleMesos fakeNet
     (fakeDNS\<lparr>rs := \<lparr>As = Map.empty,
        SRVs = [''bob.mesos.'' \<mapsto> [''bob.mesos.:31000'', ''bob.mesos.:31001''],
                ''alice.mesos.'' \<mapsto> [''alice.mesos.:31002'']]\<rparr>\<rparr>)
     (query ''bob.*.mesos.'' TypeSRV) =
   HandleMesos fakeNet
     (fakeDNS\<lparr>rs := \<lparr>As = Map.empty,
        SRVs = [''bob.mesos.'' \<mapsto> [''bob.mesos.:31000'', ''bob.mesos.:31001'']]\<rparr>\<rparr>)
     (query ''bob.*.mesos.'' TypeSRV) \<and>
   (\<exists>m m'.
      HandleMesos fakeNet
        (fakeDNS\<lparr>rs := \<lparr>As = Map.empty,
           SRVs = [''bob.mesos.'' \<mapsto> [''bob.mesos.:31000'', ''bob.mesos.:31001'']]\<rparr>\<rparr>)
        (query ''bob.*.mesos.'' TypeSRV) = Returned m \<and>
      HandleMesos (fakeNet\<lparr>rnd := (\<lambda>i. Suc 0)\<rparr>)
        (fakeDNS\<lparr>rs := \<lparr>As = Map.empty,
           SRVs = [''bob.mesos.'' \<mapsto> [''bob.mesos.:31000'', ''bob.mesos.:31001'']]\<rparr>\<rparr>)
        (query ''bob.mesos.'' TypeSRV) = Returned m' \<and>
      length (Answer m) = 2 \<and> Rcode m' = Rcode m \<and>
      mset (map (withName []) (Answer m')) = mset (map (withName []) (Answer m)) \<and>
      map Target (Answer m) = [''bob.mesos.:31000.'', ''bob.mesos.:31001.''] \<and>
      map Target (Answer m') = [''bob.mesos.:31001.'', ''bob.mesos.:31000.''])"
proof -
  let ?res = "fakeDNS\<lparr>rs := \<lparr>As = Map.empty,
        SRVs = [''bob.mesos.'' \<mapsto> [''bob.mesos.:31000'', ''bob.mesos.:31001'']]\<rparr>\<rparr>"
  let ?srvs = "[''bob.mesos.'' \<mapsto> [''bob.mesos.:31000'', ''bob.mesos.:31001''],
                ''alice.mesos.'' \<mapsto> [''alice.mesos.:31002'']]"
  have q: "Question (query ''bob.*.mesos.'' TypeSRV) =
     \<lparr>QName = ''bob.*.mesos.'', Qtype = TypeSRV, Qclass = ClassINET\<rparr> # []"
    by (simp add: query_def newMsg_def)
  have q': "Question (query ''bob.mesos.'' TypeSRV) =
     \<lparr>QName = ''bob.mesos.'', Qtype = TypeSRV, Qclass = ClassINET\<rparr> # []"
    by (simp add: query_def newMsg_def)
  have t: "Qtype \<lparr>QName = ''bob.mesos.'', Qtype = TypeSRV, Qclass = ClassINET\<rparr> =
           Qtype \<lparr>QName = ''bob.*.mesos.'', Qtype = TypeSRV, Qclass = ClassINET\<rparr>"
    by simp
  have c1: "cleanWild ''bob.*.mesos.'' = ''bob.mesos.''" by code_simp
  have c2: "cleanWild ''bob.mesos.'' = ''bob.mesos.''" by code_simp
  have r1: "Replace ''bob.*.mesos.'' ''.*'' [] = ''bob.mesos.''" by code_simp
  have c: "cleanWild (QName \<lparr>QName = ''bob.mesos.'', Qtype = TypeSRV, Qclass = ClassINET\<rparr>) =
           cleanWild (QName \<lparr>QName = ''bob.*.mesos.'', Qtype = TypeSRV, Qclass = ClassINET\<rparr>)"
    by (simp add: c1 c2)
  have n: "ResolveIPAddr (fakeNet\<lparr>rnd := (\<lambda>i. Suc 0)\<rparr>) = ResolveIPAddr fakeNet"
    by simp
  have s: "at ?srvs
             (cleanWild (QName \<lparr>QName = ''bob.*.mesos.'', Qtype = TypeSRV, Qclass = ClassINET\<rparr>)) =
           at (SRVs (rs ?res))
             (cleanWild (QName \<lparr>QName = ''bob.*.mesos.'', Qtype = TypeSRV, Qclass = ClassINET\<rparr>))"
    by (simp add: c1 at_def)
  have m: "HandleMesos fakeNet ?res (query ''bob.*.mesos.'' TypeSRV) =
     Returned \<lparr>Id_f = 0, Response = True, Authoritative = True, RecursionDesired = False,
       Rcode = 0, Question = [\<lparr>QName = ''bob.*.mesos.'', Qtype = 33, Qclass = 1\<rparr>],
       Answer = [RR_SRV \<lparr>Name = ''bob.*.mesos.'', Rrtype = 33, Class = 1, Ttl = 60\<rparr>
                   0 0 53 ''bob.mesos.:31000.'',
                 RR_SRV \<lparr>Name = ''bob.*.mesos.'', Rrtype = 33, Class = 1, Ttl = 60\<rparr>
                   0 0 53 ''bob.mesos.:31001.''],
       Ns = [], Extra = []\<rparr>"
    by code_simp
  have m': "HandleMesos (fakeNet\<lparr>rnd := (\<lambda>i. Suc 0)\<rparr>) ?res (query ''bob.mesos.'' TypeSRV) =
     Returned \<lparr>Id_f = 0, Response = True, Authoritative = True, RecursionDesired = False,
       Rcode = 0, Question = [\<lparr>QName = ''bob.mesos.'', Qtype = 33, Qclass = 1\<rparr>],
       Answer = [RR_SRV \<lparr>Name = ''bob.mesos.'', Rrtype = 33, Class = 1, Ttl = 60\<rparr>
                   0 0 53 ''bob.mesos.:31001.'',
                 RR_SRV \<lparr>Name = ''bob.mesos.'', Rrtype = 33, Class = 1, Ttl = 60\<rparr>
                   0 0 53 ''bob.mesos.:31000.''],
       Ns = [], Extra = []\<rparr>"
    by code_simp
  have m2: "HandleMesos fakeNet (fakeDNS\<lparr>rs := \<lparr>As = Map.empty, SRVs = ?srvs\<rparr>\<rparr>)
       (query ''bob.*.mesos.'' TypeSRV) =
     Returned \<lparr>Id_f = 0, Response = True, Authoritative = True, RecursionDesired = False,
       Rcode = 0, Question = [\<lparr>QName = ''bob.*.mesos.'', Qtype = 33, Qclass = 1\<rparr>],
       Answer = [RR_SRV \<lparr>Name = ''bob.*.mesos.'', Rrtype = 33, Class = 1, Ttl = 60\<rparr>
                   0 0 53 ''bob.mesos.:31000.'',
                 RR_SRV \<lparr>Name = ''bob.*.mesos.'', Rrtype = 33, Class = 1, Ttl = 60\<rparr>
                   0 0 53 ''bob.mesos.:31001.''],
       Ns = [], Extra = []\<rparr>"
    by code_simp
  show ?thesis
    using cleanWild_lookup [OF q q' t c n s, of "[]"]
    by (simp add: m m' m2)
qed

section \<open>What Check returns\<close>

lemma drop_to_last: "e \<noteq> [] \<Longrightarrow> drop (length e - Suc 0) e = [last e]"
proof -
  assume ne: "e \<noteq> []"
  have "drop (length (butlast e)) (butlast e @ [last e]) = [last e]" by simp
  then show ?thesis using ne by (simp add: append_butlast_last_id)
qed

lemma last_char_test:
  "length e' = length e \<Longrightarrow> e \<noteq> [] \<Longrightarrow>
   (drop (length e' - Suc 0) e = [c]) = (last e = c)"
  using drop_to_last [of e] by simp

lemma Check_no_masters:
  "Masters conf = [] \<Longrightarrow>
   Check h conf = Returned (Some ''masters no in file, environment or args'', conf)"
  by (simp add: Check_def)

lemma Check_bad_port:
  "Masters conf \<noteq> [] \<Longrightarrow> Port conf < 0 \<or> 65535 < Port conf \<Longrightarrow>
   Check h conf = Returned (Some ''Port must be between 0-65535'', conf)"
  by (simp add: Check_def)

lemma Check_tail:
  "(let conf1 = conf\<lparr>Resolvers := resolvers\<rparr>;
        conf2 = conf1\<lparr>Email := Replace (Email conf1) ''@'' ''.''\<rparr>
    in if length (Email conf2) = 0 then Panic
       else
         (let conf3 = (if drop (length (Email conf2) - 1) (Email conf2) \<noteq> ''.''
                       then conf2\<lparr>Email := Email conf2 @ ''.''\<rparr> else conf2);
              conf4 = conf3\<lparr>Domain_f := ToLower h (Domain_f conf3)\<rparr>;
              conf5 = conf4\<lparr>Mname := ''mesos-dns.'' @ Domain_f conf4 @ ''.''\<rparr>
          in Returned (None, conf5))) =
   (if Email conf = [] then Panic
    else Returned (None,
       conf\<lparr>Resolvers := resolvers,
            Email := (let e = map (\<lambda>c. if c = CHR ''@'' then CHR ''.'' else c) (Email conf)
                       in if last e = CHR ''.'' then e else e @ ''.''),
            Domain_f := ToLower h (Domain_f conf),
            Mname := ''mesos-dns.'' @ ToLower h (Domain_f conf) @ ''.''\<rparr>))"
  by (simp add: Let_def Replace_char last_char_test)

lemma Check_in_range:
  assumes "Masters conf \<noteq> []" and "0 \<le> Port conf" and "Port conf \<le> 65535"
  shows "Check h conf =
    (case (if Resolvers conf = [] then GetLocalDNS h else Returned (Resolvers conf)) of
       Exit code \<Rightarrow> Exit code
     | Panic \<Rightarrow> Panic
     | Returned resolvers \<Rightarrow>
        (if Email conf = [] then Panic
         else Returned (None,
           conf\<lparr>Resolvers := resolvers,
             Email := (let e = map (\<lambda>c. if c = CHR ''@'' then CHR ''.'' else c) (Email conf)
                       in if last e = CHR ''.'' then e else e @ ''.''),
             Domain_f := ToLower h (Domain_f conf),
             Mname := ''mesos-dns.'' @ ToLower h (Domain_f conf) @ ''.''\<rparr>)))"
proof -
  have p: "\<not> (Port conf < 0 \<or> Port conf > 65535)" using assms by simp
  show ?thesis
    unfolding Check_def Check_tail using assms(1) p by simp
qed

lemma Check_no_error_in_range:
  assumes "Masters conf \<noteq> []" and "0 \<le> Port conf" and "Port conf \<le> 65535"
  shows "Check h conf \<noteq> Returned (Some e, c')"
  unfolding Check_in_range [OF assms]
  by (simp add: GetLocalDNS_def split: option.splits)

text \<open>
  Claim C9, as the code has it. \<open>Check\<close> returns an error exactly when \<open>Masters\<close> is empty
  or \<open>Port\<close> lies outside 0..65535. With masters, a port in range and a non-empty e-mail
  string it returns without error, provided the resolvers are given or the machine's resolver
  file can be read.
\<close>

theorem Check_error_iff:
  "((\<exists>e c'. Check h conf = Returned (Some e, c')) =
      (Masters conf = [] \<or> Port conf < 0 \<or> 65535 < Port conf)) \<and>
   (Masters conf \<noteq> [] \<and> 0 \<le> Port conf \<and> Port conf \<le> 65535 \<and> Email conf \<noteq> [] \<and>
    (Resolvers conf \<noteq> [] \<or> ClientConfigFromFile h ''/etc/resolv.conf'' \<noteq> None)
    \<longrightarrow> (\<exists>c'. Check h conf = Returned (None, c')))"
proof (intro conjI impI)
  show "(\<exists>e c'. Check h conf = Returned (Some e, c')) =
      (Masters conf = [] \<or> Port conf < 0 \<or> 65535 < Port conf)"
  proof (cases "Masters conf = []")
    case True
    then show ?thesis by (simp add: Check_no_masters)
  next
    case False
    show ?thesis
    proof (cases "Port conf < 0 \<or> 65535 < Port conf")
      case True
      then show ?thesis using False by (simp add: Check_bad_port)
    next
      case inr: False
      then have "0 \<le> Port conf" "Port conf \<le> 65535" by simp_all
      then have "Check h conf \<noteq> Returned (Some e, c')" for e c'
        using Check_no_error_in_range [OF False] by simp
      then show ?thesis using False inr by simp
    qed
  qed
next
  assume a: "Masters conf \<noteq> [] \<and> 0 \<le> Port conf \<and> Port conf \<le> 65535 \<and> Email conf \<noteq> [] \<and>
    (Resolvers conf \<noteq> [] \<or> ClientConfigFromFile h ''/etc/resolv.conf'' \<noteq> None)"
  then have m: "Masters conf \<noteq> []" and p0: "0 \<le> Port conf" and p1: "Port conf \<le> 65535"
    by simp_all
  show "\<exists>c'. Check h conf = Returned (None, c')"
    unfolding Check_in_range [OF m p0 p1] using a
    by (auto simp add: GetLocalDNS_def split: option.splits)
qed

text \<open>The statement at the default configuration, with and without masters, with a port
  out of range, and with no resolvers on a machine whose resolver file names one.\<close>

theorem Check_error_iff_witness:
  "(\<exists>e c'. Check hostWithResolvConf New = Returned (Some e, c')) \<and>
   (\<exists>e c'. Check hostWithResolvConf (New\<lparr>Masters := [''127.0.0.1:5050''], Port := 65536\<rparr>)
      = Returned (Some e, c')) \<and>
   (\<exists>c'. Check hostWithResolvConf (New\<lparr>Masters := [''127.0.0.1:5050'']\<rparr>)
      = Returned (None, c')) \<and>
   (\<exists>c'. Check hostWithResolvConf (New\<lparr>Masters := [''127.0.0.1:5050''], Resolvers := []\<rparr>)
      = Returned (None, c'))"
  using Check_error_iff [of hostWithResolvConf New]
    Check_error_iff [of hostWithResolvConf "New\<lparr>Masters := [''127.0.0.1:5050''], Port := 65536\<rparr>"]
    Check_error_iff [of hostWithResolvConf "New\<lparr>Masters := [''127.0.0.1:5050'']\<rparr>"]
    Check_error_iff [of hostWithResolvConf "New\<lparr>Masters := [''127.0.0.1:5050''], Resolvers := []\<rparr>"]
  by (simp add: New_def hostWithResolvConf_def)

text \<open>
  Claim C9 as the specification states it fails: with a master and the default port, \<open>Check\<close>
  ends the process with status 2 when no resolver is configured and the resolver file cannot
  be read, and it panics when the e-mail string is empty.
\<close>

theorem Check_not_success_counterexample:
  "Check hostWithoutResolvConf (New\<lparr>Masters := [''127.0.0.1:5050''], Resolvers := []\<rparr>) = Exit 2 \<and>
   Check hostWithResolvConf (New\<lparr>Masters := [''127.0.0.1:5050''], Email := []\<rparr>) = Panic"
  by code_simp

text \<open>
  Claim C10. With masters, a port within 0..65535, resolvers and a non-empty e-mail string,
  \<open>Check\<close> returns without error; the e-mail string it leaves is the old one with every \<open>@\<close>
  turned into \<open>.\<close>, followed by a \<open>.\<close> unless it already ends in one, so it holds no \<open>@\<close>
  and ends in \<open>.\<close>. With an empty e-mail string \<open>Check\<close> panics: it slices the string from
  its last byte without a test.
\<close>

theorem Check_normalises_Email:
  assumes "Masters conf \<noteq> []" and "0 \<le> Port conf" and "Port conf \<le> 65535"
    and "Resolvers conf \<noteq> []"
  shows "(Email conf \<noteq> [] \<longrightarrow>
           (\<exists>c'. Check h conf = Returned (None, c') \<and>
              Email c' =
                (let e = map (\<lambda>c. if c = CHR ''@'' then CHR ''.'' else c) (Email conf)
                 in if last e = CHR ''.'' then e else e @ ''.'') \<and>
              CHR ''@'' \<notin> set (Email c') \<and> last (Email c') = CHR ''.'' \<and>
              Masters c' = Masters conf \<and> Port c' = Port conf \<and>
              Resolvers c' = Resolvers conf)) \<and>
         (Email conf = [] \<longrightarrow> Check h conf = Panic)"
  unfolding Check_in_range [OF assms(1,2,3)] using assms(4)
  by (auto simp add: Let_def)

text \<open>The statement at the default configuration with a master, once with the e-mail string
  \<open>root@mesos-dns.mesos\<close> and once with the empty one.\<close>

theorem Check_normalises_Email_witness:
  "(\<exists>c'. Check hostWithoutResolvConf (New\<lparr>Masters := [''127.0.0.1:5050''],
                                          Email := ''root@mesos-dns.mesos''\<rparr>)
            = Returned (None, c') \<and>
          Email c' = ''root.mesos-dns.mesos.'') \<and>
   Check hostWithoutResolvConf (New\<lparr>Masters := [''127.0.0.1:5050''], Email := []\<rparr>) = Panic"
proof -
  let ?c = "New\<lparr>Masters := [''127.0.0.1:5050''], Email := ''root@mesos-dns.mesos''\<rparr>"
  let ?d = "New\<lparr>Masters := [''127.0.0.1:5050''], Email := []\<rparr>"
  have c: "Masters ?c \<noteq> []" "0 \<le> Port ?c" "Port ?c \<le> 65535" "Resolvers ?c \<noteq> []"
    by (simp_all add: New_def)
  have d: "Masters ?d \<noteq> []" "0 \<le> Port ?d" "Port ?d \<le> 65535" "Resolvers ?d \<noteq> []"
    by (simp_all add: New_def)
  show ?thesis
    using Check_normalises_Email [OF c, of hostWithoutResolvConf]
      Check_normalises_Email [OF d, of hostWithoutResolvConf]
    by (auto simp add: New_def)
qed

end
